theory Spec2Isabelle
  imports Main "HOL-Library.AList" "HOL-Library.Multiset"
begin

section \<open>The background changer (bgchanger.py) as state-passing functions\<close>

text \<open>
  The program is a linear sequence of I/O calls around one object, \<open>BackgroundChanger\<close>.
  The model passes one record \<open>world\<close> through every method: it holds the object's
  fields (\<open>api_key\<close>, \<open>used_hashes\<close>), the part of the file system below the directory
  \<^verbatim>\<open>wallpapers\<close> that the code touches, the stream of random draws, the log of HTTP
  requests issued and the desktop background. Everything the code receives from outside
  (HTTP responses, the outcome of opening a file for writing, the Windows call, the
  environment variable, SHA-256) is a field of the record \<open>env\<close>, so that every theorem
  holds for all of them. \<^verbatim>\<open>print\<close> calls are not modelled.
\<close>

subsection \<open>Data\<close>

type_synonym bytes = string

text \<open>
  A path \<open>(topic, name)\<close> stands for the file \<open>name\<close> in the directory \<open>topic\<close> below
  \<^verbatim>\<open>wallpapers\<close>; a query term is one path component.
\<close>

type_synonym path = "string \<times> string"

text \<open>
  What \<^verbatim>\<open>json.load\<close> returns. Numbers are integers here (a JSON number with a fraction
  or an exponent is a float, which is not modelled).
\<close>

datatype json =
    JNull
  | JBool bool
  | JInt int
  | JStr string
  | JArr "json list"
  | JObj "(string \<times> json) list"

text \<open>
  The elements a Python set built from decoded JSON can hold, up to Python's \<open>==\<close>:
  \<^verbatim>\<open>True == 1\<close> and \<^verbatim>\<open>False == 0\<close>, so booleans are the integers 1 and 0. Lists and dicts
  are unhashable.
\<close>

datatype hkey = HNone | HInt int | HStr string

text \<open>The exceptions that no handler of the program catches.\<close>

datatype py_exception =
    TypeError
  | UnicodeDecodeError
  | NotADirectoryError
  | PermissionError
  | FileExistsError

text \<open>
  The hash file \<^verbatim>\<open>wallpapers/image_hashes.json\<close>: absent; present but \<^verbatim>\<open>open\<close> raises
  IOError; readable but its bytes are not text in the encoding of \<^verbatim>\<open>open\<close> (the read
  raises UnicodeDecodeError); text that is not JSON (\<^verbatim>\<open>json.load\<close> raises
  JSONDecodeError); or holding a JSON value.
\<close>

datatype hash_file = Missing | Unreadable | Undecodable | NotJson | Json json

text \<open>
  An entry of a topic directory: a regular file with its content, or a subdirectory.
  What stands at the path of a topic below \<^verbatim>\<open>wallpapers\<close>: a directory with its entries in
  the order \<^verbatim>\<open>iterdir\<close> yields them; a directory that may not be listed (\<^verbatim>\<open>iterdir\<close> raises
  PermissionError) while its entries can still be reached by name; or something that is
  not a directory, such as a regular file (\<^verbatim>\<open>iterdir\<close> raises NotADirectoryError).
\<close>

datatype entry = Regular bytes | Subdirectory

datatype topic_node =
    Directory "(string \<times> entry) list"
  | Unlistable_directory "(string \<times> entry) list"
  | Not_a_directory

text \<open>
  Opening a file for writing and writing it: it succeeds; \<^verbatim>\<open>open\<close> raises IOError and
  the file system is as before; or the write raises IOError after the file was opened
  (and truncated), leaving the given content. For an image, \<open>write_image\<close> of the
  environment gives the outcome where the directory exists and the name is free or that
  of a regular file; everywhere else \<^verbatim>\<open>open\<close> raises (\<open>open_wb\<close> below).
\<close>

datatype io_outcome = Written | Open_fails | Write_fails bytes

text \<open>
  One entry of the search result. \<^verbatim>\<open>photo["src"]["original"]\<close> and \<^verbatim>\<open>photo['id']\<close> raise
  KeyError when the key is missing: \<open>None\<close> here. \<open>photo_id\<close> is the text the f-string
  renders for the identifier.
\<close>

record photo =
  photo_id :: "string option"
  src_original :: "string option"

text \<open>
  \<^verbatim>\<open>requests.get\<close> followed by \<^verbatim>\<open>raise_for_status\<close> and the read of the body: a
  RequestException (transport error or a status of 400 and above), or the body. For the
  search, the body is not JSON, or it is an object whose \<open>photos\<close> is a list (a missing key
  is the empty list: \<^verbatim>\<open>data.get("photos", [])\<close>). Bodies of another shape are outside
  the model.
\<close>

datatype image_response = Image_request_exception | Image_content bytes

datatype search_response =
    Search_request_exception
  | Search_json_error
  | Search_photos "photo list"

datatype request =
    Search_request "string option" string nat
  | Image_request string

datatype api_outcome = Api_nonzero | Api_zero | Api_raises

record env =
  sha256_hexdigest :: "bytes \<Rightarrow> string"
  get_search :: "string option \<Rightarrow> string \<Rightarrow> nat \<Rightarrow> search_response"
  get_image :: "string \<Rightarrow> image_response"
  write_image :: "path \<Rightarrow> io_outcome"
  write_hash_file :: io_outcome
  mkdir_permitted :: "string \<Rightarrow> bool"
  SystemParametersInfoW :: "path \<Rightarrow> api_outcome"
  getenv_pexels_api_key :: "string option"

record world =
  api_key :: "string option"
  used_hashes :: "hkey list"
  hash_file_content :: hash_file
  dirs :: "string \<Rightarrow> topic_node option"
  rng :: "nat list"
  requests :: "request list"
  wallpaper :: "path option"

subsection \<open>Library calls\<close>

text \<open>
  \<^verbatim>\<open>random._randbelow(n)\<close>: the next draw of the stream, reduced into \<open>0..<n\<close>. A stream
  that ran out delivers 0.
\<close>

definition randbelow :: "nat \<Rightarrow> world \<Rightarrow> nat \<times> world" where
  "randbelow n w =
     (case rng w of
        [] \<Rightarrow> (0, w)
      | r # rs \<Rightarrow> (r mod n, w\<lparr>rng := rs\<rparr>))"

text \<open>
  \<^verbatim>\<open>random.shuffle(x)\<close>:
  \<^verbatim>\<open>for i in reversed(range(1, len(x))): j = randbelow(i + 1); x[i], x[j] = x[j], x[i]\<close>
\<close>

fun shuffle_down :: "nat \<Rightarrow> 'a list \<Rightarrow> world \<Rightarrow> 'a list \<times> world" where
  "shuffle_down 0 x w = (x, w)"
| "shuffle_down (Suc i) x w =
     (let (j, w') = randbelow (Suc i + 1) w
      in shuffle_down i (x[Suc i := x ! j, j := x ! Suc i]) w')"

definition shuffle :: "'a list \<Rightarrow> world \<Rightarrow> 'a list \<times> world" where
  "shuffle x w = shuffle_down (length x - 1) x w"

text \<open>\<^verbatim>\<open>str.lower\<close> on ASCII letters; every other byte is kept.\<close>

definition lower_char :: "char \<Rightarrow> char" where
  "lower_char c =
     (let n = (of_char c :: nat)
      in if 65 \<le> n \<and> n \<le> 90 then char_of (n + 32) else c)"

definition lower :: "string \<Rightarrow> string" where
  "lower s = map lower_char s"

text \<open>\<^verbatim>\<open>str.rfind\<close>: the last index of the character, \<open>None\<close> for Python's \<open>-1\<close>.\<close>

fun rfind :: "char \<Rightarrow> string \<Rightarrow> nat option" where
  "rfind c [] = None"
| "rfind c (x # xs) =
     (case rfind c xs of
        Some i \<Rightarrow> Some (Suc i)
      | None \<Rightarrow> if x = c then Some 0 else None)"

text \<open>
  \<^verbatim>\<open>PurePath.suffix\<close>:
  \<^verbatim>\<open>i = name.rfind('.'); return name[i:] if 0 < i < len(name) - 1 else ''\<close>
\<close>

definition suffix :: "string \<Rightarrow> string" where
  "suffix name =
     (case rfind (CHR ''.'') name of
        None \<Rightarrow> []
      | Some i \<Rightarrow> if 0 < i \<and> Suc i < length name then drop i name else [])"

text \<open>The entries that can be reached by name below a topic path.\<close>

fun entries :: "topic_node \<Rightarrow> (string \<times> entry) list option" where
  "entries (Directory listing) = Some listing"
| "entries (Unlistable_directory listing) = Some listing"
| "entries Not_a_directory = None"

fun with_entries :: "topic_node \<Rightarrow> (string \<times> entry) list \<Rightarrow> topic_node" where
  "with_entries (Directory old) listing = Directory listing"
| "with_entries (Unlistable_directory old) listing = Unlistable_directory listing"
| "with_entries Not_a_directory listing = Not_a_directory"

text \<open>\<^verbatim>\<open>Path.exists\<close>: false also where a component of the path is not a directory.\<close>

definition path_exists :: "path \<Rightarrow> world \<Rightarrow> bool" where
  "path_exists p w =
     (case dirs w (fst p) of
        None \<Rightarrow> False
      | Some node \<Rightarrow>
          (case entries node of
             None \<Rightarrow> False
           | Some listing \<Rightarrow> map_of listing (snd p) \<noteq> None))"

text \<open>
  \<^verbatim>\<open>Path.mkdir(exist_ok=True)\<close> of a topic directory: nothing to do for a directory;
  FileExistsError where the path is taken by something else; otherwise the directory is
  created, or PermissionError is raised where the environment does not permit it.
\<close>

definition mkdir_exist_ok :: "env \<Rightarrow> string \<Rightarrow> world \<Rightarrow> py_exception + world" where
  "mkdir_exist_ok e d w =
     (case dirs w d of
        None \<Rightarrow>
          if mkdir_permitted e d then Inr (w\<lparr>dirs := (dirs w)(d \<mapsto> Directory [])\<rparr>)
          else Inl PermissionError
      | Some (Directory listing) \<Rightarrow> Inr w
      | Some (Unlistable_directory listing) \<Rightarrow> Inr w
      | Some Not_a_directory \<Rightarrow> Inl FileExistsError)"

text \<open>
  \<^verbatim>\<open>open(save_path, 'wb')\<close> and the write: \<^verbatim>\<open>open\<close> raises an IOError where the directory
  is missing (FileNotFoundError), is not a directory (NotADirectoryError) or the name is
  that of a subdirectory (IsADirectoryError); otherwise the environment decides.
\<close>

definition open_wb :: "env \<Rightarrow> path \<Rightarrow> world \<Rightarrow> io_outcome" where
  "open_wb e p w =
     (case dirs w (fst p) of
        None \<Rightarrow> Open_fails
      | Some node \<Rightarrow>
          (case entries node of
             None \<Rightarrow> Open_fails
           | Some listing \<Rightarrow>
               (case map_of listing (snd p) of
                  Some Subdirectory \<Rightarrow> Open_fails
                | Some (Regular old) \<Rightarrow> write_image e p
                | None \<Rightarrow> write_image e p)))"

text \<open>The file system after a file was opened for writing and left with a content.\<close>

definition put_file :: "path \<Rightarrow> bytes \<Rightarrow> world \<Rightarrow> world" where
  "put_file p content w =
     (case dirs w (fst p) of
        None \<Rightarrow> w
      | Some node \<Rightarrow>
          (case entries node of
             None \<Rightarrow> w
           | Some listing \<Rightarrow>
               w\<lparr>dirs := (dirs w)(fst p \<mapsto>
                    with_entries node (AList.update (snd p) (Regular content) listing))\<rparr>))"

text \<open>
  \<^verbatim>\<open>set(v)\<close> for a decoded JSON value \<open>v\<close>: the elements of a list (TypeError when one
  is unhashable), the keys of a dict, the characters of a string; TypeError for a value
  that is not iterable. The set is kept as a list without repetitions.
\<close>

fun py_hashable :: "json \<Rightarrow> hkey option" where
  "py_hashable JNull = Some HNone"
| "py_hashable (JBool b) = Some (HInt (if b then 1 else 0))"
| "py_hashable (JInt i) = Some (HInt i)"
| "py_hashable (JStr s) = Some (HStr s)"
| "py_hashable (JArr xs) = None"
| "py_hashable (JObj kvs) = None"

fun py_set :: "json \<Rightarrow> py_exception + hkey list" where
  "py_set (JArr xs) =
     (if list_all (\<lambda>x. py_hashable x \<noteq> None) xs
      then Inr (remdups (map (\<lambda>x. the (py_hashable x)) xs))
      else Inl TypeError)"
| "py_set (JObj kvs) = Inr (remdups (map (\<lambda>kv. HStr (fst kv)) kvs))"
| "py_set (JStr s) = Inr (remdups (map (\<lambda>c. HStr [c]) s))"
| "py_set JNull = Inl TypeError"
| "py_set (JBool b) = Inl TypeError"
| "py_set (JInt i) = Inl TypeError"

text \<open>\<^verbatim>\<open>json.dump\<close> of one element of the set.\<close>

fun json_of_hkey :: "hkey \<Rightarrow> json" where
  "json_of_hkey HNone = JNull"
| "json_of_hkey (HInt i) = JInt i"
| "json_of_hkey (HStr s) = JStr s"

subsection \<open>BackgroundChanger\<close>

text \<open>
  \<^verbatim>\<open>load_used_hashes\<close> (lines 40-48): only JSONDecodeError and IOError are caught, so a
  UnicodeDecodeError of the read and a TypeError of \<^verbatim>\<open>set(...)\<close> leave the method.
\<close>

definition load_used_hashes :: "world \<Rightarrow> py_exception + hkey list" where
  "load_used_hashes w =
     (case hash_file_content w of
        Missing \<Rightarrow> Inr []
      | Unreadable \<Rightarrow> Inr []
      | Undecodable \<Rightarrow> Inl UnicodeDecodeError
      | NotJson \<Rightarrow> Inr []
      | Json v \<Rightarrow> py_set v)"

text \<open>
  \<^verbatim>\<open>__init__\<close> (lines 31-38): \<^verbatim>\<open>api_key or DEFAULT_API_KEY\<close> takes the default when the
  argument is \<open>None\<close> or empty. The directory \<^verbatim>\<open>wallpapers\<close> exists from here on.
\<close>

definition BackgroundChanger_init :: "env \<Rightarrow> string option \<Rightarrow> world \<Rightarrow> py_exception + world" where
  "BackgroundChanger_init e key w =
     (case load_used_hashes w of
        Inl exc \<Rightarrow> Inl exc
      | Inr hashes \<Rightarrow>
          Inr (w\<lparr>api_key := (if key = None \<or> key = Some [] then getenv_pexels_api_key e else key),
                 used_hashes := hashes\<rparr>))"

text \<open>
  \<^verbatim>\<open>save_used_hashes\<close> (lines 50-56): an IOError is caught and only printed. A write that
  fails after \<^verbatim>\<open>open\<close> truncated the file leaves a proper prefix of an array's text,
  which is not JSON.
\<close>

definition save_used_hashes :: "env \<Rightarrow> world \<Rightarrow> world" where
  "save_used_hashes e w =
     (case write_hash_file e of
        Written \<Rightarrow> w\<lparr>hash_file_content := Json (JArr (map json_of_hkey (used_hashes w)))\<rparr>
      | Open_fails \<Rightarrow> w
      | Write_fails left \<Rightarrow> w\<lparr>hash_file_content := NotJson\<rparr>)"

text \<open>\<^verbatim>\<open>get_image_hash\<close> (lines 58-60).\<close>

definition get_image_hash :: "env \<Rightarrow> bytes \<Rightarrow> hkey" where
  "get_image_hash e image_data = HStr (sha256_hexdigest e image_data)"

text \<open>
  Lines 106-108: \<^verbatim>\<open>self.used_hashes.add(image_hash); self.save_used_hashes()\<close>.
\<close>

definition add_hash :: "env \<Rightarrow> hkey \<Rightarrow> world \<Rightarrow> world" where
  "add_hash e h w =
     save_used_hashes e
       (w\<lparr>used_hashes := (if h \<in> set (used_hashes w) then used_hashes w else used_hashes w @ [h])\<rparr>)"

text \<open>
  \<^verbatim>\<open>set_wallpaper\<close> (lines 62-85): every exception of the call is caught and gives
  \<open>False\<close>.
\<close>

definition set_wallpaper :: "env \<Rightarrow> path \<Rightarrow> world \<Rightarrow> bool \<times> world" where
  "set_wallpaper e image_path w =
     (case SystemParametersInfoW e image_path of
        Api_nonzero \<Rightarrow> (True, w\<lparr>wallpaper := Some image_path\<rparr>)
      | Api_zero \<Rightarrow> (False, w)
      | Api_raises \<Rightarrow> (False, w))"

text \<open>\<^verbatim>\<open>download_image\<close> (lines 87-118).\<close>

definition download_image :: "env \<Rightarrow> string \<Rightarrow> path \<Rightarrow> world \<Rightarrow> path option \<times> world" where
  "download_image e url save_path w =
     (let w1 = w\<lparr>requests := requests w @ [Image_request url]\<rparr>
      in case get_image e url of
           Image_request_exception \<Rightarrow> (None, w1)
         | Image_content image_data \<Rightarrow>
             (let image_hash = get_image_hash e image_data
              in if image_hash \<in> set (used_hashes w1) then (None, w1)
                 else (case open_wb e save_path w1 of
                         Open_fails \<Rightarrow> (None, w1)
                       | Write_fails left \<Rightarrow> (None, put_file save_path left w1)
                       | Written \<Rightarrow>
                           (Some save_path,
                            add_hash e image_hash (put_file save_path image_data w1)))))"

text \<open>
  \<^verbatim>\<open>get_local_image\<close> (lines 173-195). The test of line 177 is \<^verbatim>\<open>exists()\<close>, so a path
  that exists without being a directory that can be listed reaches \<^verbatim>\<open>iterdir()\<close>, whose
  OSError nothing catches.
\<close>

definition image_extensions :: "string list" where
  "image_extensions = [''.jpg'', ''.jpeg'', ''.png'', ''.bmp'', ''.gif'']"

fun is_file :: "entry \<Rightarrow> bool" where
  "is_file (Regular content) = True"
| "is_file Subdirectory = False"

definition image_files_of :: "(string \<times> entry) list \<Rightarrow> string list" where
  "image_files_of listing =
     map fst (filter (\<lambda>f. is_file (snd f) \<and> lower (suffix (fst f)) \<in> set image_extensions) listing)"

definition get_local_image :: "string \<Rightarrow> world \<Rightarrow> (py_exception + path option) \<times> world" where
  "get_local_image query_term w =
     (case dirs w query_term of
        None \<Rightarrow> (Inr None, w)
      | Some Not_a_directory \<Rightarrow> (Inl NotADirectoryError, w)
      | Some (Unlistable_directory listing) \<Rightarrow> (Inl PermissionError, w)
      | Some (Directory listing) \<Rightarrow>
          (let image_files = image_files_of listing
           in if image_files = [] then (Inr None, w)
              else (let (k, w') = randbelow (length image_files) w
                    in (Inr (Some (query_term, image_files ! k)), w'))))"

text \<open>Line 149: \<^verbatim>\<open>filename = f"pexels_{photo['id']}.jpg"\<close>.\<close>

definition pexels_filename :: "string \<Rightarrow> string" where
  "pexels_filename ident = ''pexels_'' @ ident @ ''.jpg''"

text \<open>
  The loop of \<^verbatim>\<open>fetch_from_pexels\<close> (lines 145-161). A KeyError leaves the loop and is
  caught at line 169: the method returns \<open>None\<close>. An OSError of \<^verbatim>\<open>mkdir\<close> (line 151) is
  not a RequestException: no handler of the method catches it.
\<close>

fun try_photos :: "env \<Rightarrow> string \<Rightarrow> photo list \<Rightarrow> world \<Rightarrow> (py_exception + path option) \<times> world" where
  "try_photos e query_term [] w = (Inr None, w)"
| "try_photos e query_term (p # photos) w =
     (case src_original p of
        None \<Rightarrow> (Inr None, w)
      | Some image_url \<Rightarrow>
          (case photo_id p of
             None \<Rightarrow> (Inr None, w)
           | Some ident \<Rightarrow>
               (case mkdir_exist_ok e query_term w of
                  Inl exc \<Rightarrow> (Inl exc, w)
                | Inr w1 \<Rightarrow>
                    (let save_path = (query_term, pexels_filename ident)
                     in if path_exists save_path w1 then try_photos e query_term photos w1
                        else (case download_image e image_url save_path w1 of
                                (Some downloaded_path, w2) \<Rightarrow> (Inr (Some downloaded_path), w2)
                              | (None, w2) \<Rightarrow> try_photos e query_term photos w2)))))"

text \<open>
  \<^verbatim>\<open>fetch_from_pexels\<close> (lines 120-171). The header is built from \<open>api_key\<close> whatever it
  is. On an empty result the local image is looked up and its result dropped (lines
  140-141); an exception of that call leaves the method.
\<close>

definition fetch_from_pexels :: "env \<Rightarrow> string \<Rightarrow> world \<Rightarrow> (py_exception + path option) \<times> world" where
  "fetch_from_pexels e query_term w =
     (let (r, w1) = randbelow 10 w;
          page = 1 + r;
          w2 = w1\<lparr>requests := requests w1 @ [Search_request (api_key w1) query_term page]\<rparr>
      in case get_search e (api_key w1) query_term page of
           Search_request_exception \<Rightarrow> (Inr None, w2)
         | Search_json_error \<Rightarrow> (Inr None, w2)
         | Search_photos photos \<Rightarrow>
             if photos = []
             then (case get_local_image query_term w2 of
                     (Inl exc, w3) \<Rightarrow> (Inl exc, w3)
                   | (Inr local_image, w3) \<Rightarrow> (Inr None, w3))
             else (let (shuffled, w3) = shuffle photos w2
                   in try_photos e query_term shuffled w3))"

text \<open>\<^verbatim>\<open>change_background\<close> (lines 197-213).\<close>

definition change_background :: "env \<Rightarrow> string \<Rightarrow> bool \<Rightarrow> world \<Rightarrow> (py_exception + bool) \<times> world" where
  "change_background e query_term local_only w =
     (let (image_path, w1) =
            (if local_only then get_local_image query_term w
             else fetch_from_pexels e query_term w)
      in case image_path of
           Inl exc \<Rightarrow> (Inl exc, w1)
         | Inr (Some p) \<Rightarrow> (let (success, w2) = set_wallpaper e p w1 in (Inr success, w2))
         | Inr None \<Rightarrow> (Inr False, w1))"

text \<open>
  \<^verbatim>\<open>main\<close> (lines 215-235). Lines 222-226 decide the mode from \<^verbatim>\<open>sys.argv\<close>. The result
  is the exit status, or the exception that ends the process.
\<close>

definition term_list :: "string list" where
  "term_list = [''mountains'', ''polygon'', ''abstract'', ''4k wallpaper'', ''landscape'']"

definition local_only_of_argv :: "string list \<Rightarrow> bool" where
  "local_only_of_argv argv =
     (if length argv > 2
      then lower (argv ! 1) \<in> set [''true'', ''1'', ''yes'', ''on'']
      else False)"

definition main :: "env \<Rightarrow> string list \<Rightarrow> world \<Rightarrow> (py_exception + nat) \<times> world" where
  "main e argv w =
     (if length argv < 1 then (Inr 1, w)
      else (let (k, w1) = randbelow (length term_list) w;
                query_term = term_list ! k;
                local_only = local_only_of_argv argv
            in case BackgroundChanger_init e None w1 of
                 Inl exc \<Rightarrow> (Inl exc, w1)
               | Inr w2 \<Rightarrow>
                   (case change_background e query_term local_only w2 of
                      (Inl exc, w3) \<Rightarrow> (Inl exc, w3)
                    | (Inr success, w3) \<Rightarrow> (Inr (if success then 0 else 1), w3))))"

subsection \<open>Observations and the specification's wording\<close>

text \<open>
  An observation of the model, not a function of the program: the content of the regular
  file at a path.
\<close>

definition read_file :: "path \<Rightarrow> world \<Rightarrow> bytes option" where
  "read_file p w =
     (case dirs w (fst p) of
        None \<Rightarrow> None
      | Some node \<Rightarrow>
          (case entries node of
             None \<Rightarrow> None
           | Some listing \<Rightarrow>
               (case map_of listing (snd p) of
                  Some (Regular content) \<Rightarrow> Some content
                | Some Subdirectory \<Rightarrow> None
                | None \<Rightarrow> None)))"

text \<open>
  The specification's words for a name with an image extension, to be compared with the
  test of the code (\<^verbatim>\<open>f.suffix.lower() in image_extensions\<close>): the name is a non-empty
  stem, a dot and an extension without a dot, and the extension in lower case is one of
  jpg, jpeg, png, bmp, gif.
\<close>

definition spec_has_image_extension :: "string \<Rightarrow> bool" where
  "spec_has_image_extension name \<longleftrightarrow>
     (\<exists>stem ext. name = stem @ CHR ''.'' # ext \<and> stem \<noteq> [] \<and> CHR ''.'' \<notin> set ext
        \<and> lower ext \<in> {''jpg'', ''jpeg'', ''png'', ''bmp'', ''gif''})"

text \<open>
  The state in which \<^verbatim>\<open>fetch_from_pexels\<close> receives the answer of the search: the page
  was drawn and the request is in the log.
\<close>

definition search_state :: "string \<Rightarrow> world \<Rightarrow> world" where
  "search_state q w =
     (snd (randbelow 10 w))
       \<lparr>requests := requests w @ [Search_request (api_key w) q (1 + fst (randbelow 10 w))]\<rparr>"

subsection \<open>Concrete environments\<close>

text \<open>
  Small environments and worlds at which the theorems below are evaluated. The digest of
  \<open>demo_env\<close> is the identity: an injective stand-in for SHA-256.
\<close>

definition demo_env :: env where
  "demo_env =
     \<lparr>sha256_hexdigest = (\<lambda>b. b),
      get_search = (\<lambda>key q page. Search_photos []),
      get_image = (\<lambda>url. Image_request_exception),
      write_image = (\<lambda>p. Written),
      write_hash_file = Written,
      mkdir_permitted = (\<lambda>d. True),
      SystemParametersInfoW = (\<lambda>p. Api_nonzero),
      getenv_pexels_api_key = None\<rparr>"

definition demo_world :: world where
  "demo_world =
     \<lparr>api_key = None, used_hashes = [], hash_file_content = Missing, dirs = Map.empty,
      rng = [], requests = [], wallpaper = None\<rparr>"

text \<open>
  Two candidates; in \<open>c2_env\<close> the request for the first ends in a RequestException.
\<close>

definition two_photos :: "photo list" where
  "two_photos =
     [\<lparr>photo_id = Some ''1'', src_original = Some ''http://u1''\<rparr>,
      \<lparr>photo_id = Some ''2'', src_original = Some ''http://u2''\<rparr>]"

definition c2_env :: env where
  "c2_env = demo_env
     \<lparr>get_search := (\<lambda>key q page. Search_photos two_photos),
      get_image := (\<lambda>url. if url = ''http://u1'' then Image_request_exception else Image_content ''img'')\<rparr>"

text \<open>
  In \<open>c9_env\<close> every image is fetched and no image file can be opened for writing.
\<close>

definition c9_env :: env where
  "c9_env = demo_env
     \<lparr>get_image := (\<lambda>url. Image_content ''img''), write_image := (\<lambda>p. Open_fails)\<rparr>"

text \<open>
  The world of C1: the directory of the topic \<^verbatim>\<open>desert\<close> holds one image.
\<close>

definition desert_world :: world where
  "desert_world = demo_world\<lparr>dirs := [''desert'' \<mapsto> Directory [(''a.jpg'', Regular ''img'')]]\<rparr>"

text \<open>
  Three candidates; in \<open>c6_env\<close> the first two yield the same bytes.
\<close>

definition three_photos :: "photo list" where
  "three_photos =
     [\<lparr>photo_id = Some ''1'', src_original = Some ''http://u1''\<rparr>,
      \<lparr>photo_id = Some ''2'', src_original = Some ''http://u2''\<rparr>,
      \<lparr>photo_id = Some ''3'', src_original = Some ''http://u3''\<rparr>]"

definition c6_env :: env where
  "c6_env = demo_env
     \<lparr>get_search := (\<lambda>key q page. Search_photos three_photos),
      get_image := (\<lambda>url. if url = ''http://u3'' then Image_content ''other'' else Image_content ''img'')\<rparr>"

text \<open>
  The state the first call of C6 leaves, and the state in which a later call starts with
  the second candidate.
\<close>

definition c6_first :: world where
  "c6_first = snd (fetch_from_pexels c6_env ''desert'' (demo_world\<lparr>rng := [0, 2, 1]\<rparr>))"

definition c6_later :: world where
  "c6_later = c6_first\<lparr>rng := [0, 2, 0]\<rparr>"

text \<open>
  The directory of the specification's example: \<^verbatim>\<open>a.jpg\<close>, \<^verbatim>\<open>b.txt\<close>, \<^verbatim>\<open>c.PNG\<close>.
\<close>

definition mountains_listing :: "(string \<times> entry) list" where
  "mountains_listing =
     [(''a.jpg'', Regular ''A''), (''b.txt'', Regular ''B''), (''c.PNG'', Regular ''C'')]"

definition mountains_world :: world where
  "mountains_world = demo_world\<lparr>dirs := [''mountains'' \<mapsto> Directory mountains_listing]\<rparr>"

text \<open>
  The worlds of C8: at the path of the topic stands a regular file, or a directory that
  may not be listed.
\<close>

definition file_at_topic_world :: world where
  "file_at_topic_world = demo_world\<lparr>dirs := [''mountains'' \<mapsto> Not_a_directory]\<rparr>"

definition unlistable_world :: world where
  "unlistable_world =
     demo_world\<lparr>dirs := [''mountains'' \<mapsto> Unlistable_directory mountains_listing]\<rparr>"

section \<open>Properties\<close>

subsection \<open>Frame lemmas\<close>

lemma randbelow_frame [simp]:
  "used_hashes (snd (randbelow n w)) = used_hashes w
   \<and> hash_file_content (snd (randbelow n w)) = hash_file_content w
   \<and> dirs (snd (randbelow n w)) = dirs w
   \<and> requests (snd (randbelow n w)) = requests w
   \<and> api_key (snd (randbelow n w)) = api_key w
   \<and> wallpaper (snd (randbelow n w)) = wallpaper w"
  by (simp add: randbelow_def split: list.split)

lemma randbelow_less: "0 < n \<Longrightarrow> fst (randbelow n w) < n"
  by (simp add: randbelow_def split: list.split)

lemma get_local_image_frame [simp]:
  "used_hashes (snd (get_local_image q w)) = used_hashes w
   \<and> hash_file_content (snd (get_local_image q w)) = hash_file_content w
   \<and> dirs (snd (get_local_image q w)) = dirs w
   \<and> requests (snd (get_local_image q w)) = requests w
   \<and> api_key (snd (get_local_image q w)) = api_key w
   \<and> wallpaper (snd (get_local_image q w)) = wallpaper w"
  by (simp add: get_local_image_def Let_def split_beta split: option.split topic_node.split)

lemma set_wallpaper_frame [simp]:
  "used_hashes (snd (set_wallpaper e p w)) = used_hashes w
   \<and> hash_file_content (snd (set_wallpaper e p w)) = hash_file_content w
   \<and> dirs (snd (set_wallpaper e p w)) = dirs w
   \<and> requests (snd (set_wallpaper e p w)) = requests w
   \<and> api_key (snd (set_wallpaper e p w)) = api_key w
   \<and> rng (snd (set_wallpaper e p w)) = rng w"
  by (simp add: set_wallpaper_def split: api_outcome.split)

lemma set_wallpaper_result:
  "wallpaper (snd (set_wallpaper e p w)) = (if fst (set_wallpaper e p w) then Some p else wallpaper w)"
  by (simp add: set_wallpaper_def split: api_outcome.split)

subsection \<open>Local-only mode\<close>

text \<open>
  C10. In local-only mode \<^verbatim>\<open>change_background\<close> leaves the in-memory hash set, the hash
  file, the topic directories and the request log as they were, also where it ends in an
  exception: it only reads the topic directory and, when an image was found and the
  Windows call succeeded, sets that image as the background.
\<close>

theorem C10_local_only_frame:
  "used_hashes (snd (change_background e q True w)) = used_hashes w
   \<and> hash_file_content (snd (change_background e q True w)) = hash_file_content w
   \<and> dirs (snd (change_background e q True w)) = dirs w
   \<and> requests (snd (change_background e q True w)) = requests w
   \<and> (if fst (change_background e q True w) = Inr True
       then Inr (wallpaper (snd (change_background e q True w))) = fst (get_local_image q w)
       else wallpaper (snd (change_background e q True w)) = wallpaper w)"
proof -
  obtain r w1 where g: "get_local_image q w = (r, w1)"
    by (cases "get_local_image q w")
  have f1: "used_hashes w1 = used_hashes w \<and> hash_file_content w1 = hash_file_content w
      \<and> dirs w1 = dirs w \<and> requests w1 = requests w \<and> wallpaper w1 = wallpaper w"
    using get_local_image_frame [of q w] g by simp
  show ?thesis
  proof (cases r)
    case (Inl exc)
    then show ?thesis using g f1 by (simp add: change_background_def)
  next
    case (Inr found)
    show ?thesis
    proof (cases found)
      case None
      then show ?thesis using g f1 Inr by (simp add: change_background_def)
    next
      case (Some p)
      have "change_background e q True w
          = (Inr (fst (set_wallpaper e p w1)), snd (set_wallpaper e p w1))"
        using g Inr Some by (simp add: change_background_def split_beta)
      then show ?thesis
        using set_wallpaper_frame [of e p w1] set_wallpaper_result [of e p w1] f1 g Inr Some
        by simp
    qed
  qed
qed

subsection \<open>Downloading one candidate\<close>

lemma mkdir_exist_ok_frame:
  assumes "mkdir_exist_ok e d w = Inr w1"
  shows "used_hashes w1 = used_hashes w" and "hash_file_content w1 = hash_file_content w"
    and "requests w1 = requests w" and "api_key w1 = api_key w" and "rng w1 = rng w"
    and "wallpaper w1 = wallpaper w"
  using assms
  by (auto simp: mkdir_exist_ok_def split: option.splits topic_node.splits if_splits)

lemma put_file_frame [simp]:
  "used_hashes (put_file p b w) = used_hashes w
   \<and> hash_file_content (put_file p b w) = hash_file_content w
   \<and> requests (put_file p b w) = requests w
   \<and> api_key (put_file p b w) = api_key w
   \<and> rng (put_file p b w) = rng w
   \<and> wallpaper (put_file p b w) = wallpaper w"
  by (simp add: put_file_def split: option.split)

lemma save_used_hashes_frame [simp]:
  "used_hashes (save_used_hashes e w) = used_hashes w
   \<and> dirs (save_used_hashes e w) = dirs w
   \<and> requests (save_used_hashes e w) = requests w
   \<and> api_key (save_used_hashes e w) = api_key w
   \<and> rng (save_used_hashes e w) = rng w
   \<and> wallpaper (save_used_hashes e w) = wallpaper w"
  by (simp add: save_used_hashes_def split: io_outcome.split)

lemma add_hash_frame [simp]:
  "dirs (add_hash e h w) = dirs w
   \<and> requests (add_hash e h w) = requests w
   \<and> api_key (add_hash e h w) = api_key w
   \<and> rng (add_hash e h w) = rng w
   \<and> wallpaper (add_hash e h w) = wallpaper w"
  by (simp add: add_hash_def)

lemma add_hash_set [simp]:
  "set (used_hashes (add_hash e h w)) = insert h (set (used_hashes w))"
  by (auto simp: add_hash_def)

lemma open_wb_requests [simp]:
  "open_wb e p (w\<lparr>requests := rq\<rparr>) = open_wb e p w"
  by (simp add: open_wb_def)

lemma open_wb_not_written:
  "write_image e p \<noteq> Written \<Longrightarrow> open_wb e p w \<noteq> Written"
  by (simp add: open_wb_def split: option.split entry.split)

lemma download_image_exception:
  "get_image e url = Image_request_exception \<Longrightarrow>
   download_image e url p w = (None, w\<lparr>requests := requests w @ [Image_request url]\<rparr>)"
  by (simp add: download_image_def)


lemma download_image_requests [simp]:
  "requests (snd (download_image e url p w)) = requests w @ [Image_request url]"
  by (simp add: download_image_def Let_def split: image_response.split io_outcome.split)

lemma download_image_api_key [simp]:
  "api_key (snd (download_image e url p w)) = api_key w"
  by (simp add: download_image_def Let_def split: image_response.split io_outcome.split)

text \<open>
  Whatever makes the write fail (the outcome the environment gives, a missing directory,
  a path that is not a directory, a subdirectory of that name), nothing is registered.
\<close>

lemma download_image_open_fails:
  assumes "open_wb e save_path w \<noteq> Written"
  shows "fst (download_image e url save_path w) = None
    \<and> used_hashes (snd (download_image e url save_path w)) = used_hashes w
    \<and> hash_file_content (snd (download_image e url save_path w)) = hash_file_content w"
  using assms
  by (simp add: download_image_def Let_def split: image_response.split io_outcome.split)

lemma try_photos_next:
  assumes "src_original p = Some url" and "photo_id p = Some ident"
    and "mkdir_exist_ok e q w = Inr w1"
    and "\<not> path_exists (q, pexels_filename ident) w1"
    and "download_image e url (q, pexels_filename ident) w1 = (None, w')"
  shows "try_photos e q (p # photos) w = try_photos e q photos w'"
  using assms by (simp add: Let_def)

text \<open>
  C9. When the write of the downloaded bytes to the save path fails (\<^verbatim>\<open>open\<close> or the write
  raises IOError), \<^verbatim>\<open>download_image\<close> returns \<open>None\<close> and neither the in-memory hash set
  nor the hash file changes: the digest is registered only after the write succeeded.
\<close>

theorem C9_write_failure_registers_nothing:
  assumes "write_image e save_path \<noteq> Written"
  shows "fst (download_image e url save_path w) = None
    \<and> used_hashes (snd (download_image e url save_path w)) = used_hashes w
    \<and> hash_file_content (snd (download_image e url save_path w)) = hash_file_content w"
  using download_image_open_fails [OF open_wb_not_written [OF assms]] .

text \<open>
  The theorem of C9 where the directory exists, the image was fetched, its digest is new
  and \<^verbatim>\<open>open\<close> fails.
\<close>

theorem C9_witness:
  "write_image c9_env (''desert'', ''pexels_1.jpg'') \<noteq> Written
   \<and> get_image c9_env ''http://u1'' = Image_content ''img''
   \<and> dirs desert_world ''desert'' = Some (Directory [(''a.jpg'', Regular ''img'')])
   \<and> fst (download_image c9_env ''http://u1'' (''desert'', ''pexels_1.jpg'') desert_world) = None
   \<and> used_hashes (snd (download_image c9_env ''http://u1'' (''desert'', ''pexels_1.jpg'') desert_world)) = []
   \<and> hash_file_content (snd (download_image c9_env ''http://u1'' (''desert'', ''pexels_1.jpg'') desert_world))
        = Missing"
  using C9_write_failure_registers_nothing
    [of c9_env "(''desert'', ''pexels_1.jpg'')" "''http://u1''" desert_world]
  by (simp add: c9_env_def demo_env_def desert_world_def demo_world_def)

text \<open>
  C2, as the code has it. A transport error on a candidate's URL is caught inside
  \<^verbatim>\<open>download_image\<close>, which returns \<open>None\<close> having changed nothing but the request log (one
  request, no retry, no file, no hash); the loop, which reached the download because the
  directory could be made and the save path was free, then goes on with the remaining
  candidates.
\<close>

theorem C2_transport_error_next_candidate:
  assumes "get_image e url = Image_request_exception"
    and "src_original p = Some url" and "photo_id p = Some ident"
  shows "download_image e url save_path w0
           = (None, w0\<lparr>requests := requests w0 @ [Image_request url]\<rparr>)
    \<and> (\<forall>w1. mkdir_exist_ok e q w = Inr w1 \<longrightarrow> \<not> path_exists (q, pexels_filename ident) w1 \<longrightarrow>
          try_photos e q (p # photos) w
            = try_photos e q photos (w1\<lparr>requests := requests w @ [Image_request url]\<rparr>))"
proof (intro conjI allI impI)
  show "download_image e url save_path w0
           = (None, w0\<lparr>requests := requests w0 @ [Image_request url]\<rparr>)"
    using download_image_exception [OF assms(1)] .
next
  fix w1
  assume m: "mkdir_exist_ok e q w = Inr w1"
    and free: "\<not> path_exists (q, pexels_filename ident) w1"
  have d: "download_image e url (q, pexels_filename ident) w1
           = (None, w1\<lparr>requests := requests w @ [Image_request url]\<rparr>)"
    using download_image_exception [OF assms(1)] mkdir_exist_ok_frame(3) [OF m] by simp
  show "try_photos e q (p # photos) w
            = try_photos e q photos (w1\<lparr>requests := requests w @ [Image_request url]\<rparr>)"
    using try_photos_next [OF assms(2) assms(3) m free d] .
qed

text \<open>
  C2 as stated fails: the first of two candidates ends in a transport error, the second
  is fetched all the same and is the result of the acquisition.
\<close>

theorem C2_counterexample:
  "get_image c2_env ''http://u1'' = Image_request_exception
   \<and> fst (fetch_from_pexels c2_env ''desert'' (demo_world\<lparr>rng := [0, 1]\<rparr>))
       = Inr (Some (''desert'', ''pexels_2.jpg''))
   \<and> requests (snd (fetch_from_pexels c2_env ''desert'' (demo_world\<lparr>rng := [0, 1]\<rparr>)))
       = [Search_request None ''desert'' 1, Image_request ''http://u1'', Image_request ''http://u2'']"
  by (simp add: c2_env_def demo_env_def demo_world_def two_photos_def fetch_from_pexels_def
      randbelow_def shuffle_def Let_def mkdir_exist_ok_def path_exists_def download_image_def
      get_image_hash_def put_file_def add_hash_def save_used_hashes_def pexels_filename_def
      open_wb_def)

text \<open>
  The theorem of C2 at the first of the two candidates: the directory of the topic is
  made, the request fails, and the loop goes on with the second candidate.
\<close>

theorem C2_witness:
  "get_image c2_env ''http://u1'' = Image_request_exception
   \<and> mkdir_exist_ok c2_env ''desert'' demo_world
       = Inr (demo_world\<lparr>dirs := [''desert'' \<mapsto> Directory []]\<rparr>)
   \<and> \<not> path_exists (''desert'', ''pexels_1.jpg'') (demo_world\<lparr>dirs := [''desert'' \<mapsto> Directory []]\<rparr>)
   \<and> download_image c2_env ''http://u1'' (''desert'', ''pexels_1.jpg'') demo_world
       = (None, demo_world\<lparr>requests := [Image_request ''http://u1'']\<rparr>)
   \<and> try_photos c2_env ''desert'' two_photos demo_world
       = try_photos c2_env ''desert'' (tl two_photos)
           (demo_world\<lparr>dirs := [''desert'' \<mapsto> Directory []], requests := [Image_request ''http://u1'']\<rparr>)"
  using C2_transport_error_next_candidate
    [of c2_env "''http://u1''" "hd two_photos" "''1''" "(''desert'', ''pexels_1.jpg'')" demo_world
        "''desert''" demo_world "tl two_photos"]
  by (simp add: c2_env_def demo_env_def demo_world_def two_photos_def mkdir_exist_ok_def
      path_exists_def pexels_filename_def)

subsection \<open>The remote search\<close>

lemma shuffle_down_frame [simp]:
  "used_hashes (snd (shuffle_down i x w)) = used_hashes w
   \<and> hash_file_content (snd (shuffle_down i x w)) = hash_file_content w
   \<and> dirs (snd (shuffle_down i x w)) = dirs w
   \<and> requests (snd (shuffle_down i x w)) = requests w
   \<and> api_key (snd (shuffle_down i x w)) = api_key w
   \<and> wallpaper (snd (shuffle_down i x w)) = wallpaper w"
  by (induction i arbitrary: x w) (simp_all add: split_beta)

lemma shuffle_frame [simp]:
  "used_hashes (snd (shuffle x w)) = used_hashes w
   \<and> hash_file_content (snd (shuffle x w)) = hash_file_content w
   \<and> dirs (snd (shuffle x w)) = dirs w
   \<and> requests (snd (shuffle x w)) = requests w
   \<and> api_key (snd (shuffle x w)) = api_key w
   \<and> wallpaper (snd (shuffle x w)) = wallpaper w"
  by (simp add: shuffle_def)

lemma shuffle_down_mset:
  "i < length x \<Longrightarrow> mset (fst (shuffle_down i x w)) = mset x"
proof (induction i arbitrary: x w)
  case 0
  then show ?case by simp
next
  case (Suc i)
  have j: "fst (randbelow (Suc i + 1) w) < length x"
    using randbelow_less [of "Suc i + 1" w] Suc.prems by simp
  have "mset (x[Suc i := x ! fst (randbelow (Suc i + 1) w),
                fst (randbelow (Suc i + 1) w) := x ! Suc i]) = mset x"
    using mset_swap [OF j Suc.prems] .
  then show ?case
    using Suc.IH [of "x[Suc i := x ! fst (randbelow (Suc i + 1) w),
                fst (randbelow (Suc i + 1) w) := x ! Suc i]" "snd (randbelow (Suc i + 1) w)"]
      Suc.prems
    by (simp add: split_beta)
qed

lemma shuffle_mset: "mset (fst (shuffle x w)) = mset x"
  by (cases x) (simp_all add: shuffle_def shuffle_down_mset)

lemma try_photos_requests:
  "\<exists>rest. requests (snd (try_photos e q photos w)) = requests w @ rest"
proof (induction photos arbitrary: w)
  case Nil
  then show ?case by simp
next
  case (Cons p photos)
  show ?case
  proof (cases "src_original p")
    case None
    then show ?thesis by simp
  next
    case url: (Some url)
    show ?thesis
    proof (cases "photo_id p")
      case None
      then show ?thesis using url by simp
    next
      case ident: (Some ident)
      let ?path = "(q, pexels_filename ident)"
      show ?thesis
      proof (cases "mkdir_exist_ok e q w")
        case (Inl exc)
        then show ?thesis using url ident by simp
      next
        case m: (Inr w1)
        have rq1: "requests w1 = requests w"
          using mkdir_exist_ok_frame(3) [OF m] .
        show ?thesis
        proof (cases "path_exists ?path w1")
          case True
          then show ?thesis
            using url ident m rq1 Cons.IH [of w1] by (simp add: Let_def)
        next
          case False
          obtain r w2 where d: "download_image e url ?path w1 = (r, w2)"
            by (cases "download_image e url ?path w1")
          have "requests (snd (download_image e url ?path w1)) = requests w1 @ [Image_request url]"
            by (rule download_image_requests)
          then have rq: "requests w2 = requests w @ [Image_request url]"
            unfolding d using rq1 by simp
          show ?thesis
          proof (cases r)
            case None
            obtain rest where "requests (snd (try_photos e q photos w2)) = requests w2 @ rest"
              using Cons.IH [of w2] by blast
            then show ?thesis
              using url ident m False d None rq by (simp add: Let_def)
          next
            case (Some a)
            then show ?thesis
              using url ident m False d rq by (simp add: Let_def)
          qed
        qed
      qed
    qed
  qed
qed

lemma fetch_from_pexels_requests:
  "\<exists>rest. requests (snd (fetch_from_pexels e q w))
     = requests w @ Search_request (api_key w) q (1 + fst (randbelow 10 w)) # rest"
proof -
  let ?w1 = "snd (randbelow 10 w)"
  let ?page = "1 + fst (randbelow 10 w)"
  let ?w2 = "?w1\<lparr>requests := requests ?w1 @ [Search_request (api_key ?w1) q ?page]\<rparr>"
  show ?thesis
  proof (cases "get_search e (api_key w) q ?page")
    case Search_request_exception
    then show ?thesis by (simp add: fetch_from_pexels_def split_beta Let_def)
  next
    case Search_json_error
    then show ?thesis by (simp add: fetch_from_pexels_def split_beta Let_def)
  next
    case (Search_photos photos)
    show ?thesis
    proof (cases "photos = []")
      case True
      obtain r w3 where g: "get_local_image q ?w2 = (r, w3)"
        by (cases "get_local_image q ?w2")
      have "requests (snd (get_local_image q ?w2)) = requests ?w2"
        by simp
      then have "requests w3 = requests ?w2"
        unfolding g by simp
      then show ?thesis
        using Search_photos True g
        by (cases r) (simp_all add: fetch_from_pexels_def split_beta Let_def)
    next
      case False
      obtain rest where
        "requests (snd (try_photos e q (fst (shuffle photos ?w2)) (snd (shuffle photos ?w2))))
           = requests (snd (shuffle photos ?w2)) @ rest"
        using try_photos_requests by blast
      then show ?thesis
        using Search_photos False by (simp add: fetch_from_pexels_def split_beta Let_def)
    qed
  qed
qed

text \<open>
  C4, as the code has it. \<^verbatim>\<open>fetch_from_pexels\<close> has no check of the credential: with the
  credential absent the search request is the first thing issued, carrying the absent
  value, and the run fails for the remote path only when the request fails (the
  RequestException is caught, the result is \<open>None\<close>).
\<close>

theorem C4_absent_key_request_sent:
  assumes "api_key w = None"
  shows "(\<exists>rest. requests (snd (fetch_from_pexels e q w))
            = requests w @ Search_request None q (1 + fst (randbelow 10 w)) # rest)
    \<and> (get_search e None q (1 + fst (randbelow 10 w)) = Search_request_exception
         \<longrightarrow> fst (fetch_from_pexels e q w) = Inr None)"
  using assms fetch_from_pexels_requests [of e q w]
  by (simp add: fetch_from_pexels_def split_beta Let_def)

text \<open>
  The theorem of C4 where the server refuses the request without a credential.
\<close>

theorem C4_witness:
  "api_key demo_world = None
   \<and> get_search (demo_env\<lparr>get_search := (\<lambda>key q page. Search_request_exception)\<rparr>)
        None ''desert'' (1 + fst (randbelow 10 demo_world)) = Search_request_exception
   \<and> (\<exists>rest. requests (snd (fetch_from_pexels
          (demo_env\<lparr>get_search := (\<lambda>key q page. Search_request_exception)\<rparr>) ''desert'' demo_world))
        = Search_request None ''desert'' 1 # rest)
   \<and> fst (fetch_from_pexels
          (demo_env\<lparr>get_search := (\<lambda>key q page. Search_request_exception)\<rparr>) ''desert'' demo_world)
        = Inr None"
  using C4_absent_key_request_sent
    [of demo_world "demo_env\<lparr>get_search := (\<lambda>key q page. Search_request_exception)\<rparr>" "''desert''"]
  by (simp add: demo_env_def demo_world_def randbelow_def)

text \<open>
  C4 as stated fails: with the credential absent the request log, empty before the
  call, holds the search request after it.
\<close>

theorem C4_counterexample:
  "api_key demo_world = None
   \<and> requests demo_world = []
   \<and> requests (snd (fetch_from_pexels demo_env ''desert'' demo_world))
       = [Search_request None ''desert'' 1]"
  by (simp add: demo_env_def demo_world_def fetch_from_pexels_def randbelow_def
      get_local_image_def)

text \<open>
  An empty search result in general: no image is returned whatever the local directory
  holds, and the only request is the search.
\<close>

lemma fetch_from_pexels_no_photos:
  assumes "get_search e (api_key w) q (1 + fst (randbelow 10 w)) = Search_photos []"
  shows "fst (fetch_from_pexels e q w) \<noteq> Inr (Some p)"
    and "requests (snd (fetch_from_pexels e q w))
           = requests w @ [Search_request (api_key w) q (1 + fst (randbelow 10 w))]"
    and "dirs (snd (fetch_from_pexels e q w)) = dirs w"
    and "used_hashes (snd (fetch_from_pexels e q w)) = used_hashes w"
    and "hash_file_content (snd (fetch_from_pexels e q w)) = hash_file_content w"
proof -
  let ?w2 = "(snd (randbelow 10 w))\<lparr>requests := requests w
      @ [Search_request (api_key w) q (1 + fst (randbelow 10 w))]\<rparr>"
  obtain r w3 where g: "get_local_image q ?w2 = (r, w3)"
    by (cases "get_local_image q ?w2")
  have "requests (snd (get_local_image q ?w2)) = requests ?w2"
    and "dirs (snd (get_local_image q ?w2)) = dirs ?w2"
    and "used_hashes (snd (get_local_image q ?w2)) = used_hashes ?w2"
    and "hash_file_content (snd (get_local_image q ?w2)) = hash_file_content ?w2"
    by simp_all
  then have fr: "requests w3 = requests ?w2" "dirs w3 = dirs w" "used_hashes w3 = used_hashes w"
    "hash_file_content w3 = hash_file_content w"
    unfolding g by simp_all
  have f: "fetch_from_pexels e q w = (case r of Inl exc \<Rightarrow> (Inl exc, w3) | Inr found \<Rightarrow> (Inr None, w3))"
    using assms g by (simp add: fetch_from_pexels_def split_beta Let_def)
  show "fst (fetch_from_pexels e q w) \<noteq> Inr (Some p)"
    and "requests (snd (fetch_from_pexels e q w))
           = requests w @ [Search_request (api_key w) q (1 + fst (randbelow 10 w))]"
    and "dirs (snd (fetch_from_pexels e q w)) = dirs w"
    and "used_hashes (snd (fetch_from_pexels e q w)) = used_hashes w"
    and "hash_file_content (snd (fetch_from_pexels e q w)) = hash_file_content w"
    using f fr by (cases r; simp)+
qed

text \<open>
  C1 at the input where the code departs from it. The search returns no photo and the
  directory of the topic holds the eligible image \<^verbatim>\<open>a.jpg\<close>: \<^verbatim>\<open>get_local_image\<close> finds it, no
  download is attempted, but \<^verbatim>\<open>fetch_from_pexels\<close> drops the result of the call (lines
  140-141) and returns \<open>None\<close>, so the run fails and no background is set.
\<close>

theorem C1_local_image_dropped:
  "get_search demo_env (api_key desert_world) ''desert'' 1 = Search_photos []
   \<and> fst (get_local_image ''desert'' desert_world) = Inr (Some (''desert'', ''a.jpg''))
   \<and> fst (fetch_from_pexels demo_env ''desert'' desert_world) = Inr None
   \<and> requests (snd (fetch_from_pexels demo_env ''desert'' desert_world))
        = [Search_request None ''desert'' 1]
   \<and> change_background demo_env ''desert'' False desert_world
        = (Inr False, snd (fetch_from_pexels demo_env ''desert'' desert_world))
   \<and> wallpaper (snd (change_background demo_env ''desert'' False desert_world)) = None"
  by (simp add: desert_world_def demo_env_def demo_world_def fetch_from_pexels_def
      randbelow_def get_local_image_def image_files_of_def image_extensions_def suffix_def
      lower_def lower_char_def change_background_def)

subsection \<open>The command line\<close>

text \<open>
  C3 at the input where the code departs from it. With the flag as the only argument
  \<^verbatim>\<open>len(sys.argv)\<close> is 2, the test \<^verbatim>\<open>len(sys.argv) > 2\<close> fails and the mode stays remote:
  the run sends the search request although the directory of the topic holds images,
  and with no search result it ends with status 1. The flag is read (from position 1)
  only when a further argument follows it.
\<close>

theorem C3_single_flag_ignored:
  "local_only_of_argv [''bgchanger.py'', ''true''] = False
   \<and> local_only_of_argv [''bgchanger.py'', ''true'', ''x''] = True
   \<and> local_only_of_argv [''bgchanger.py'', ''mountains'', ''true''] = False
   \<and> fst (main demo_env [''bgchanger.py'', ''true''] mountains_world) = Inr 1
   \<and> requests (snd (main demo_env [''bgchanger.py'', ''true''] mountains_world))
        = [Search_request None ''mountains'' 1]
   \<and> wallpaper (snd (main demo_env [''bgchanger.py'', ''true''] mountains_world)) = None"
  by (simp add: local_only_of_argv_def lower_def lower_char_def char_of_def main_def
      mountains_world_def demo_world_def demo_env_def randbelow_def term_list_def
      BackgroundChanger_init_def load_used_hashes_def change_background_def
      fetch_from_pexels_def get_local_image_def mountains_listing_def image_files_of_def
      image_extensions_def suffix_def)

subsection \<open>Loading and saving the hashes\<close>

text \<open>
  C5 at inputs where the code departs from it. A hash file that holds JSON of another
  shape than an array of hashable values makes \<^verbatim>\<open>set(json.load(f))\<close> raise TypeError, which
  \<^verbatim>\<open>except (json.JSONDecodeError, IOError)\<close> does not catch: it leaves
  \<^verbatim>\<open>load_used_hashes\<close>, the constructor and \<^verbatim>\<open>main\<close>. An array of numbers is loaded as it
  is, not as the empty set. A file whose bytes cannot be decoded as text raises
  UnicodeDecodeError, which is not caught either.
\<close>

theorem C5_wrong_shape_raises:
  "load_used_hashes (w\<lparr>hash_file_content := Json JNull\<rparr>) = Inl TypeError
   \<and> load_used_hashes (w\<lparr>hash_file_content := Json (JInt 5)\<rparr>) = Inl TypeError
   \<and> load_used_hashes (w\<lparr>hash_file_content := Json (JArr [JArr [JStr ''ab'']])\<rparr>) = Inl TypeError
   \<and> load_used_hashes (w\<lparr>hash_file_content := Json (JArr [JInt 1, JInt 2])\<rparr>) = Inr [HInt 1, HInt 2]
   \<and> BackgroundChanger_init e key (w\<lparr>hash_file_content := Json JNull\<rparr>) = Inl TypeError
   \<and> fst (main e [''bgchanger.py''] (w\<lparr>hash_file_content := Json JNull\<rparr>)) = Inl TypeError
   \<and> load_used_hashes (w\<lparr>hash_file_content := Undecodable\<rparr>) = Inl UnicodeDecodeError
   \<and> fst (main e [''bgchanger.py''] (w\<lparr>hash_file_content := Undecodable\<rparr>)) = Inl UnicodeDecodeError"
  by (simp add: load_used_hashes_def BackgroundChanger_init_def main_def split_beta
      randbelow_def split: list.split)

text \<open>
  The cases \<^verbatim>\<open>load_used_hashes\<close> does handle: a missing file, one that cannot be opened, and
  one whose text is not JSON.
\<close>

lemma load_used_hashes_caught:
  "hash_file_content w \<in> {Missing, Unreadable, NotJson} \<Longrightarrow> load_used_hashes w = Inr []"
  by (auto simp: load_used_hashes_def)

lemma py_hashable_json_of_hkey [simp]: "py_hashable (json_of_hkey h) = Some h"
  by (cases h) simp_all

text \<open>
  What \<^verbatim>\<open>json.dump(list(s))\<close> wrote, \<^verbatim>\<open>set(json.load(f))\<close> reads back.
\<close>

lemma py_set_dump: "py_set (JArr (map json_of_hkey hs)) = Inr (remdups hs)"
proof -
  have "list_all (\<lambda>x. py_hashable x \<noteq> None) (map json_of_hkey hs)"
    by (simp add: list_all_iff)
  moreover have "map (\<lambda>x. the (py_hashable x)) (map json_of_hkey hs) = hs"
    by (simp add: map_idI)
  ultimately show ?thesis by simp
qed

lemma add_hash_written:
  "write_hash_file e = Written \<Longrightarrow>
   hash_file_content (add_hash e h w) = Json (JArr (map json_of_hkey (used_hashes (add_hash e h w))))"
  by (simp add: add_hash_def save_used_hashes_def)

lemma fold_add_hash_set:
  "set (used_hashes (fold (add_hash e) hs w)) = set (used_hashes w) \<union> set hs"
  by (induction hs arbitrary: w) auto

lemma fold_add_hash_written:
  assumes "write_hash_file e = Written" and "hs \<noteq> []"
  shows "hash_file_content (fold (add_hash e) hs w)
           = Json (JArr (map json_of_hkey (used_hashes (fold (add_hash e) hs w))))"
proof -
  obtain hs' h where "hs = hs' @ [h]"
    using assms(2) by (cases hs rule: rev_cases) auto
  then show ?thesis
    using add_hash_written [OF assms(1)] by simp
qed

lemma load_after_write:
  "hash_file_content w = Json (JArr (map json_of_hkey (used_hashes w))) \<Longrightarrow>
   load_used_hashes w = Inr (remdups (used_hashes w))"
  by (simp add: load_used_hashes_def py_set_dump del: py_set.simps)

text \<open>
  C7, as the code has it. Adding a hash (lines 107-108) inserts it into the in-memory set
  and calls \<^verbatim>\<open>save_used_hashes\<close> at once. After any sequence of adds, membership in the
  in-memory set holds for exactly the hashes the set held before and the added ones; and
  when the rewrite of the file succeeds, a fresh load from the file returns exactly that
  set. When the rewrite raises IOError the error is caught and printed, and the file does
  not hold the added hash.
\<close>

theorem C7_add_round_trip:
  "(\<forall>h. h \<in> set (used_hashes (fold (add_hash e) hs w)) \<longleftrightarrow> h \<in> set (used_hashes w) \<or> h \<in> set hs)
   \<and> (write_hash_file e = Written \<longrightarrow> hs \<noteq> [] \<longrightarrow>
        (\<exists>l. load_used_hashes (fold (add_hash e) hs w) = Inr l
              \<and> set l = set (used_hashes w) \<union> set hs))"
proof -
  have mem: "\<forall>h. h \<in> set (used_hashes (fold (add_hash e) hs w)) \<longleftrightarrow> h \<in> set (used_hashes w) \<or> h \<in> set hs"
    by (simp add: fold_add_hash_set)
  have "\<exists>l. load_used_hashes (fold (add_hash e) hs w) = Inr l
              \<and> set l = set (used_hashes w) \<union> set hs"
    if "write_hash_file e = Written" and "hs \<noteq> []"
  proof -
    have "load_used_hashes (fold (add_hash e) hs w)
            = Inr (remdups (used_hashes (fold (add_hash e) hs w)))"
      using load_after_write [OF fold_add_hash_written [OF that]] .
    then show ?thesis
      by (simp add: fold_add_hash_set)
  qed
  then show ?thesis using mem by blast
qed

text \<open>
  The theorem of C7 for two adds to an empty store whose file can be written.
\<close>

theorem C7_witness:
  "write_hash_file demo_env = Written
   \<and> [HStr ''ab'', HStr ''cd''] \<noteq> []
   \<and> (\<exists>l. load_used_hashes (fold (add_hash demo_env) [HStr ''ab'', HStr ''cd''] demo_world) = Inr l
          \<and> set l = {HStr ''ab'', HStr ''cd''})
   \<and> HStr ''ab'' \<in> set (used_hashes (fold (add_hash demo_env) [HStr ''ab'', HStr ''cd''] demo_world))
   \<and> HStr ''ef'' \<notin> set (used_hashes (fold (add_hash demo_env) [HStr ''ab'', HStr ''cd''] demo_world))"
  using C7_add_round_trip [of demo_env "[HStr ''ab'', HStr ''cd'']" demo_world]
  by (simp add: demo_env_def demo_world_def insert_commute)

text \<open>
  C7 as stated fails: when the hash file cannot be opened for writing, or the write
  breaks off, the added hash is in the in-memory set but a fresh load from the file
  returns the empty set.
\<close>

theorem C7_counterexample:
  "HStr ''ab'' \<in> set (used_hashes (add_hash (demo_env\<lparr>write_hash_file := Open_fails\<rparr>) (HStr ''ab'') demo_world))
   \<and> load_used_hashes (add_hash (demo_env\<lparr>write_hash_file := Open_fails\<rparr>) (HStr ''ab'') demo_world) = Inr []
   \<and> load_used_hashes (add_hash (demo_env\<lparr>write_hash_file := Write_fails ''[\"a''\<rparr>) (HStr ''ab'') demo_world) = Inr []"
  by (simp add: demo_env_def demo_world_def add_hash_def save_used_hashes_def load_used_hashes_def)

subsection \<open>Candidates with the same content\<close>


lemma search_state_frame [simp]:
  "used_hashes (search_state q w) = used_hashes w
   \<and> hash_file_content (search_state q w) = hash_file_content w
   \<and> dirs (search_state q w) = dirs w
   \<and> api_key (search_state q w) = api_key w
   \<and> wallpaper (search_state q w) = wallpaper w
   \<and> requests (search_state q w)
       = requests w @ [Search_request (api_key w) q (1 + fst (randbelow 10 w))]"
  by (simp add: search_state_def)

lemma mkdir_exist_ok_dirs:
  assumes "mkdir_exist_ok e d w = Inr w1"
  shows "\<exists>node listing. dirs w1 d = Some node \<and> entries node = Some listing"
    and "dirs w d \<noteq> None \<Longrightarrow> w1 = w"
  using assms
  by (auto simp: mkdir_exist_ok_def split: option.splits topic_node.splits if_splits)


lemma entries_with_entries:
  "entries node = Some old \<Longrightarrow> entries (with_entries node listing) = Some listing"
  by (cases node) simp_all




lemma read_file_put_file_other:
  assumes "snd p' \<noteq> snd p"
  shows "read_file p' (put_file p b w) = read_file p' w"
proof (cases "dirs w (fst p)")
  case None
  then show ?thesis by (simp add: put_file_def)
next
  case (Some node)
  show ?thesis
  proof (cases "entries node")
    case None
    then show ?thesis using Some by (simp add: put_file_def)
  next
    case (Some listing)
    then show ?thesis
      using \<open>dirs w (fst p) = Some node\<close> assms
      by (simp add: put_file_def read_file_def entries_with_entries update_conv')
  qed
qed





lemma pexels_filename_inject [simp]:
  "pexels_filename a = pexels_filename b \<longleftrightarrow> a = b"
  by (simp add: pexels_filename_def)





lemma shuffle_Nil [simp]: "fst (shuffle [] w) = []"
  by (simp add: shuffle_def)



lemmas c6_eval_defs =
  c6_first_def c6_later_def c6_env_def demo_env_def demo_world_def three_photos_def
  fetch_from_pexels_def search_state_def randbelow_def shuffle_def Let_def mkdir_exist_ok_def
  path_exists_def download_image_def get_image_hash_def put_file_def add_hash_def
  save_used_hashes_def pexels_filename_def open_wb_def read_file_def



text \<open>
  The later call in a new process: the constructor loads the hash file the first call
  rewrote, and the second candidate is skipped in the same way.
\<close>

lemma c6_new_process_example:
  "write_hash_file c6_env = Written
   \<and> load_used_hashes (c6_first\<lparr>rng := [0, 2, 0]\<rparr>) = Inr [HStr ''img'']
   \<and> (case BackgroundChanger_init c6_env None (c6_first\<lparr>rng := [0, 2, 0]\<rparr>) of
        Inl exc \<Rightarrow> False
      | Inr w2 \<Rightarrow>
          fst (fetch_from_pexels c6_env ''desert'' w2) = Inr (Some (''desert'', ''pexels_3.jpg''))
          \<and> requests (snd (fetch_from_pexels c6_env ''desert'' w2))
               = [Search_request None ''desert'' 1, Image_request ''http://u1'',
                  Search_request None ''desert'' 1, Image_request ''http://u2'',
                  Image_request ''http://u3'']
          \<and> read_file (''desert'', ''pexels_2.jpg'') (snd (fetch_from_pexels c6_env ''desert'' w2))
               = None)"
  by (simp add: c6_eval_defs load_used_hashes_def BackgroundChanger_init_def)

subsection \<open>Local images\<close>

lemma rfind_None: "rfind c s = None \<longleftrightarrow> c \<notin> set s"
  by (induction s) (auto split: option.splits)

lemma rfind_append:
  "c \<notin> set ext \<Longrightarrow> rfind c (stem @ c # ext) = Some (length stem)"
proof (induction stem)
  case Nil
  then have "rfind c ext = None" by (simp add: rfind_None)
  then show ?case by simp
next
  case (Cons x stem)
  then show ?case by simp
qed

lemma rfind_Some:
  "rfind c s = Some i \<Longrightarrow> s = take i s @ c # drop (Suc i) s \<and> i < length s \<and> c \<notin> set (drop (Suc i) s)"
proof (induction s arbitrary: i)
  case Nil
  then show ?case by simp
next
  case (Cons x s)
  show ?case
  proof (cases "rfind c s")
    case None
    then have "c \<notin> set s" by (simp add: rfind_None)
    then show ?thesis using Cons.prems None by (auto split: if_splits)
  next
    case (Some j)
    then have "i = Suc j" using Cons.prems by simp
    then show ?thesis using Cons.IH [OF Some] by simp
  qed
qed

lemma lower_char_dot [simp]: "lower_char (CHR ''.'') = CHR ''.''"
  by (simp add: lower_char_def)

text \<open>
  The test of the code agrees with the specification's words.
\<close>

lemma suffix_image_extension:
  "lower (suffix name) \<in> set image_extensions \<longleftrightarrow> spec_has_image_extension name"
proof
  assume a: "lower (suffix name) \<in> set image_extensions"
  then have ne: "suffix name \<noteq> []"
    by (auto simp: image_extensions_def lower_def)
  then obtain i where i: "rfind (CHR ''.'') name = Some i" and pos: "0 < i"
    and sf: "suffix name = drop i name"
    by (auto simp: suffix_def split: option.splits if_splits)
  from rfind_Some [OF i]
  have nm: "name = take i name @ CHR ''.'' # drop (Suc i) name"
    and len: "i < length name" and nd: "CHR ''.'' \<notin> set (drop (Suc i) name)"
    by simp_all
  have "drop i name = CHR ''.'' # drop (Suc i) name"
    using nm len by (metis append_take_drop_id same_append_eq)
  then have "lower (suffix name) = CHR ''.'' # lower (drop (Suc i) name)"
    using sf by (simp add: lower_def)
  then have "lower (drop (Suc i) name) \<in> {''jpg'', ''jpeg'', ''png'', ''bmp'', ''gif''}"
    using a by (auto simp: image_extensions_def)
  moreover have "take i name \<noteq> []"
    using pos len by auto
  ultimately show "spec_has_image_extension name"
    unfolding spec_has_image_extension_def using nm nd by blast
next
  assume "spec_has_image_extension name"
  then obtain stem ext where nm: "name = stem @ CHR ''.'' # ext" and st: "stem \<noteq> []"
    and nd: "CHR ''.'' \<notin> set ext"
    and lo: "lower ext \<in> {''jpg'', ''jpeg'', ''png'', ''bmp'', ''gif''}"
    unfolding spec_has_image_extension_def by blast
  have ext: "ext \<noteq> []"
    using lo by (auto simp: lower_def)
  have "rfind (CHR ''.'') name = Some (length stem)"
    using rfind_append [OF nd] nm by simp
  then have "suffix name = CHR ''.'' # ext"
    using nm st ext by (simp add: suffix_def)
  then have "lower (suffix name) = CHR ''.'' # lower ext"
    by (simp add: lower_def)
  then show "lower (suffix name) \<in> set image_extensions"
    using lo by (auto simp: image_extensions_def)
qed

lemma set_image_files_of:
  "set (image_files_of listing)
     = {name. (\<exists>content. (name, Regular content) \<in> set listing) \<and> spec_has_image_extension name}"
proof -
  have "is_file en \<longleftrightarrow> (\<exists>content. en = Regular content)" for en
    by (cases en) simp_all
  then show ?thesis
    by (force simp: image_files_of_def suffix_image_extension)
qed

lemma distinct_image_files_of:
  "distinct (map fst listing) \<Longrightarrow> distinct (image_files_of listing)"
  by (simp add: image_files_of_def distinct_map_filter)

lemma get_local_image_draw:
  assumes "dirs w q = Some (Directory listing)" and "k < length (image_files_of listing)"
  shows "fst (get_local_image q (w\<lparr>rng := k # rs\<rparr>)) = Inr (Some (q, image_files_of listing ! k))"
  using assms by (auto simp: get_local_image_def randbelow_def Let_def)

lemma get_local_image_Some:
  assumes "dirs w q = Some (Directory listing)" and "image_files_of listing \<noteq> []"
  shows "fst (get_local_image q w)
    = Inr (Some (q, image_files_of listing ! fst (randbelow (length (image_files_of listing)) w)))"
  using assms by (simp add: get_local_image_def Let_def split_beta)

text \<open>
  What \<^verbatim>\<open>get_local_image\<close> does where the path of the topic is absent or a directory that
  can be listed: it reports failure when the directory does not exist or holds no
  matching file; the files it chooses from are exactly the regular files of the directory
  whose extension is one of jpg, jpeg, png, bmp, gif, compared in lower case; otherwise it
  returns one of them. \<^verbatim>\<open>random.choice\<close> draws an index below their number, the draw \<open>k\<close>
  returns the \<open>k\<close>-th matching file, and the matching files of a directory (whose names
  are distinct) are distinct, so each of them is returned for exactly one of the equally
  likely draws.
\<close>

lemma get_local_image_selection:
  "(dirs w q = None \<longrightarrow> get_local_image q w = (Inr None, w))
   \<and> (\<forall>listing. dirs w q = Some (Directory listing) \<longrightarrow>
        set (image_files_of listing)
          = {name. (\<exists>content. (name, Regular content) \<in> set listing) \<and> spec_has_image_extension name}
        \<and> (image_files_of listing = [] \<longrightarrow> get_local_image q w = (Inr None, w))
        \<and> (image_files_of listing \<noteq> [] \<longrightarrow>
             (\<exists>name \<in> set (image_files_of listing). fst (get_local_image q w) = Inr (Some (q, name))))
        \<and> (\<forall>k rs. k < length (image_files_of listing) \<longrightarrow>
             fst (get_local_image q (w\<lparr>rng := k # rs\<rparr>)) = Inr (Some (q, image_files_of listing ! k)))
        \<and> (distinct (map fst listing) \<longrightarrow> distinct (image_files_of listing)))"
proof (intro conjI allI impI)
  assume "dirs w q = None"
  then show "get_local_image q w = (Inr None, w)"
    by (simp add: get_local_image_def)
next
  fix listing
  assume "dirs w q = Some (Directory listing)"
  show "set (image_files_of listing)
          = {name. (\<exists>content. (name, Regular content) \<in> set listing) \<and> spec_has_image_extension name}"
    by (rule set_image_files_of)
next
  fix listing
  assume "dirs w q = Some (Directory listing)" and "image_files_of listing = []"
  then show "get_local_image q w = (Inr None, w)"
    by (simp add: get_local_image_def)
next
  fix listing
  assume d: "dirs w q = Some (Directory listing)" and ne: "image_files_of listing \<noteq> []"
  have "fst (randbelow (length (image_files_of listing)) w) < length (image_files_of listing)"
    using ne by (simp add: randbelow_less)
  then have "image_files_of listing ! fst (randbelow (length (image_files_of listing)) w)
      \<in> set (image_files_of listing)"
    by (rule nth_mem)
  then show "\<exists>name \<in> set (image_files_of listing). fst (get_local_image q w) = Inr (Some (q, name))"
    using get_local_image_Some [OF d ne] by blast
next
  fix listing k rs
  assume "dirs w q = Some (Directory listing)" and "k < length (image_files_of listing)"
  then show "fst (get_local_image q (w\<lparr>rng := k # rs\<rparr>)) = Inr (Some (q, image_files_of listing ! k))"
    by (rule get_local_image_draw)
next
  fix listing
  assume "dirs w q = Some (Directory listing)" and "distinct (map fst listing)"
  then show "distinct (image_files_of listing)"
    by (simp add: distinct_image_files_of)
qed

text \<open>
  The specification's example: of \<^verbatim>\<open>a.jpg\<close>, \<^verbatim>\<open>b.txt\<close>, \<^verbatim>\<open>c.PNG\<close> only \<^verbatim>\<open>a.jpg\<close> and \<^verbatim>\<open>c.PNG\<close>
  are eligible, each is returned for one draw, and a topic without a directory fails.
\<close>

lemma get_local_image_selection_example:
  "image_files_of mountains_listing = [''a.jpg'', ''c.PNG'']
   \<and> spec_has_image_extension ''a.jpg'' \<and> spec_has_image_extension ''c.PNG''
   \<and> \<not> spec_has_image_extension ''b.txt''
   \<and> fst (get_local_image ''mountains'' (mountains_world\<lparr>rng := [0]\<rparr>))
        = Inr (Some (''mountains'', ''a.jpg''))
   \<and> fst (get_local_image ''mountains'' (mountains_world\<lparr>rng := [1]\<rparr>))
        = Inr (Some (''mountains'', ''c.PNG''))
   \<and> get_local_image ''desert'' mountains_world = (Inr None, mountains_world)"
proof -
  have d: "dirs mountains_world ''mountains'' = Some (Directory mountains_listing)"
    and n: "dirs mountains_world ''desert'' = None"
    by (simp_all add: mountains_world_def demo_world_def)
  have ev: "image_files_of mountains_listing = [''a.jpg'', ''c.PNG'']"
    by code_simp
  have s: "set (image_files_of mountains_listing)
      = {name. (\<exists>content. (name, Regular content) \<in> set mountains_listing) \<and> spec_has_image_extension name}"
    by (rule set_image_files_of)
  have "''a.jpg'' \<in> set (image_files_of mountains_listing)"
    and "''c.PNG'' \<in> set (image_files_of mountains_listing)"
    and "''b.txt'' \<notin> set (image_files_of mountains_listing)"
    by (simp_all add: ev)
  moreover have "(''b.txt'', Regular ''B'') \<in> set mountains_listing"
    by (simp add: mountains_listing_def)
  ultimately have ext: "spec_has_image_extension ''a.jpg''" "spec_has_image_extension ''c.PNG''"
    "\<not> spec_has_image_extension ''b.txt''"
    unfolding s by blast+
  have "fst (get_local_image ''mountains'' (mountains_world\<lparr>rng := [0]\<rparr>))
        = Inr (Some (''mountains'', ''a.jpg''))"
    and "fst (get_local_image ''mountains'' (mountains_world\<lparr>rng := [1]\<rparr>))
        = Inr (Some (''mountains'', ''c.PNG''))"
    using get_local_image_draw [OF d, of 0 "[]"] get_local_image_draw [OF d, of 1 "[]"]
    by (simp_all add: ev)
  moreover have "get_local_image ''desert'' mountains_world = (Inr None, mountains_world)"
    using n by (simp add: get_local_image_def)
  ultimately show ?thesis
    using ev ext by simp
qed

text \<open>
  Where the path of the topic exists without being a directory that can be listed, the
  test of line 177 lets it through and \<^verbatim>\<open>iterdir()\<close> raises.
\<close>

lemma get_local_image_raises:
  "dirs w q = Some Not_a_directory \<Longrightarrow> get_local_image q w = (Inl NotADirectoryError, w)"
  "dirs w q = Some (Unlistable_directory listing) \<Longrightarrow> get_local_image q w = (Inl PermissionError, w)"
  by (simp_all add: get_local_image_def)

text \<open>
  C8 at inputs where the code departs from it. At the path of the topic stands a regular
  file: there is no such subdirectory, yet \<^verbatim>\<open>get_local_image\<close> does not report failure but
  ends in NotADirectoryError, which leaves \<^verbatim>\<open>change_background\<close> and \<^verbatim>\<open>main\<close>. And where
  the directory holds matching files but may not be listed, no file is returned: the call
  ends in PermissionError.
\<close>

theorem C8_not_a_directory_raises:
  "dirs file_at_topic_world ''mountains'' = Some Not_a_directory
   \<and> fst (get_local_image ''mountains'' file_at_topic_world) = Inl NotADirectoryError
   \<and> fst (change_background demo_env ''mountains'' True file_at_topic_world) = Inl NotADirectoryError
   \<and> fst (main demo_env [''bgchanger.py'', ''true'', ''x''] file_at_topic_world)
        = Inl NotADirectoryError
   \<and> wallpaper (snd (main demo_env [''bgchanger.py'', ''true'', ''x''] file_at_topic_world)) = None
   \<and> dirs unlistable_world ''mountains'' = Some (Unlistable_directory mountains_listing)
   \<and> image_files_of mountains_listing = [''a.jpg'', ''c.PNG'']
   \<and> fst (get_local_image ''mountains'' unlistable_world) = Inl PermissionError"
proof -
  have "image_files_of mountains_listing = [''a.jpg'', ''c.PNG'']"
    by code_simp
  moreover have "local_only_of_argv [''bgchanger.py'', ''true'', ''x''] = True"
    by (simp add: local_only_of_argv_def lower_def lower_char_def char_of_def)
  ultimately show ?thesis
    by (simp add: file_at_topic_world_def unlistable_world_def demo_world_def demo_env_def
        get_local_image_def change_background_def main_def randbelow_def term_list_def
        BackgroundChanger_init_def load_used_hashes_def)
qed

end
